theory Spec2Isabelle
  imports Main
begin

section \<open>User realm discovery (adal/user_realm.py)\<close>

text \<open>
  The module is embedded function by function. Python strings are byte strings
  (\<^typ>\<open>string\<close>, the UTF-8 encoding of the text), a raised exception is the \<open>Inl\<close> of a
  sum, the mutable \<open>UserRealm\<close> object, the logger's output and the sequence of callback
  invocations are threaded through every function as an explicit state.
\<close>

subsection \<open>Python values, exceptions and name resolution\<close>

text \<open>The values \<open>json.loads\<close> can produce; \<open>JNull\<close> is Python's \<open>None\<close>.\<close>

datatype json =
    JNull
  | JBool bool
  | JNum int
  | JStr string
  | JArr "json list"
  | JObj "(string \<times> json) list"

text \<open>
  The exceptions the module can meet. \<open>AdalError\<close> is the error object that the logger's
  \<open>create_error\<close> builds from a message; \<open>OtherError\<close> stands for whatever the HTTP
  library, the JSON parser or the caller's callback may raise.
\<close>

datatype pyexn =
    NameError string
  | TypeError string
  | AttributeError string
  | KeyError string
  | AdalError string
  | OtherError string

text \<open>What a name of the module can be bound to.\<close>

datatype pyval =
    Module string
  | Callable string
  | Instance string
  | Str string
  | Dict "(string \<times> string) list"
  | Val json

text \<open>
  The collaborators that are not part of the module: the two vocabularies of
  \<open>constants.UserRealm\<close>, the standard library's \<open>json.loads\<close>, \<open>requests.get\<close>, and
  Python's \<open>repr\<close> of lists and dictionaries (used only inside log and error messages).
  Python's \<open>str.lower\<close>, which is aware of Unicode, is a parameter as well.
  The response is the \<open>Response\<close> object of the \<open>requests\<close> library that line 31 imports:
  it has a status code, the decoded payload \<open>text\<close>, the outcome of \<open>json()\<close> and headers,
  of which only a correlation identifier is kept. A URL value has the components that the
  module sets or that \<open>geturl\<close> prints.
\<close>

record response =
  status_code :: int
  resp_text :: string
  resp_json :: "pyexn + json"
  correlation_id :: "string option"

text \<open>
  The attributes, properties and methods of \<open>requests.Response\<close>. The class defines no
  \<open>__getattr__\<close>, so reading any other attribute raises \<open>AttributeError\<close>; \<open>body\<close>, which
  lines 157, 158 and 168 read, is not among them.
\<close>

definition response_attributes :: "string list" where
  "response_attributes =
    [''status_code'', ''headers'', ''raw'', ''url'', ''encoding'', ''history'', ''reason'',
     ''cookies'', ''elapsed'', ''request'', ''ok'', ''is_redirect'', ''is_permanent_redirect'',
     ''next'', ''apparent_encoding'', ''content'', ''text'', ''links'', ''json'',
     ''iter_content'', ''iter_lines'', ''raise_for_status'', ''close'']"

text \<open>\<open>resp.body\<close>.\<close>

definition resp_body :: "response \<Rightarrow> pyexn + string" where
  "resp_body resp =
    (if ''body'' \<in> set response_attributes then Inr (resp_text resp)
     else Inl (AttributeError ''body''))"

record url =
  scheme :: string
  netloc :: string
  path :: string
  query :: string
  fragment :: string

record env =
  AccountType :: "(string \<times> string) list"
  FederationProtocolType :: "(string \<times> string) list"
  json_loads :: "string \<Rightarrow> pyexn + json"
  requests_get :: "url \<Rightarrow> (string \<times> string) list \<Rightarrow> pyexn + response"
  str_lower :: "string \<Rightarrow> string"
  container_repr :: "json \<Rightarrow> string"

definition USER_REALM_PATH_TEMPLATE :: string where
  "USER_REALM_PATH_TEMPLATE = ''common/UserRealm/<user>''"

text \<open>
  The names bound at module level by lines 23 to 42: the five functions imported from
  \<open>urllib\<close>, the modules \<open>requests\<close>, \<open>constants\<close>, \<open>log\<close> and \<open>util\<close>, the path template,
  the two vocabularies and the class. Neither \<open>json\<close> nor \<open>constnats\<close> is among them, and
  neither is a builtin.
\<close>

definition module_globals :: "env \<Rightarrow> (string \<times> pyval) list" where
  "module_globals E =
    [(''quote'', Callable ''quote''),
     (''unquote'', Callable ''unquote''),
     (''urlencode'', Callable ''urlencode''),
     (''urlparse'', Callable ''urlparse''),
     (''urlsplit'', Callable ''urlsplit''),
     (''requests'', Module ''requests''),
     (''constants'', Module ''constants''),
     (''log'', Module ''log''),
     (''util'', Module ''util''),
     (''USER_REALM_PATH_TEMPLATE'', Str USER_REALM_PATH_TEMPLATE),
     (''AccountType'', Dict (AccountType E)),
     (''FederationProtocolType'', Dict (FederationProtocolType E)),
     (''UserRealm'', Callable ''UserRealm'')]"

text \<open>
  Evaluating a name: the local frame first, then the module's globals; a name bound in
  neither raises \<open>NameError\<close>.
\<close>

definition resolve :: "env \<Rightarrow> (string \<times> pyval) list \<Rightarrow> string \<Rightarrow> pyexn + pyval" where
  "resolve E frame name =
    (case map_of (frame @ module_globals E) name of
       None \<Rightarrow> Inl (NameError name)
     | Some v \<Rightarrow> Inr v)"

text \<open>Truth value of a Python object, as \<open>if not value\<close> tests it.\<close>

fun truthy :: "json \<Rightarrow> bool" where
  "truthy JNull = False"
| "truthy (JBool b) = b"
| "truthy (JNum n) = (n \<noteq> 0)"
| "truthy (JStr s) = (s \<noteq> [])"
| "truthy (JArr xs) = (xs \<noteq> [])"
| "truthy (JObj kvs) = (kvs \<noteq> [])"

text \<open>
  Lower-casing of the ASCII letters, other bytes left as they are: what \<open>str.lower\<close> does
  on ASCII text. The example environment uses it for \<open>str_lower\<close>.
\<close>

definition lower_char :: "char \<Rightarrow> char" where
  "lower_char c =
    (if 65 \<le> (of_char c :: nat) \<and> (of_char c :: nat) \<le> 90
     then char_of ((of_char c :: nat) + 32) else c)"

text \<open>\<open>value.lower()\<close>: only a string has the method.\<close>

fun py_lower :: "env \<Rightarrow> json \<Rightarrow> pyexn + json" where
  "py_lower E (JStr s) = Inr (JStr (str_lower E s))"
| "py_lower E v = Inl (AttributeError ''lower'')"

text \<open>\<open>response[key]\<close>: a missing key raises \<open>KeyError\<close>, a non-dictionary \<open>TypeError\<close>.\<close>

fun subscript :: "json \<Rightarrow> string \<Rightarrow> pyexn + json" where
  "subscript (JObj kvs) key =
    (case map_of kvs key of None \<Rightarrow> Inl (KeyError key) | Some v \<Rightarrow> Inr v)"
| "subscript v key = Inl (TypeError ''indices'')"

text \<open>Decimal digits of an integer, as \<open>str.format\<close> prints it.\<close>

fun str_nat :: "nat \<Rightarrow> string" where
  "str_nat n =
    (if n < 10 then [char_of (48 + n)]
     else str_nat (n div 10) @ [char_of (48 + n mod 10)])"

declare str_nat.simps [simp del]

definition str_int :: "int \<Rightarrow> string" where
  "str_int i = (if i < 0 then CHR ''-'' # str_nat (nat (- i)) else str_nat (nat i))"

text \<open>\<open>'{0}'.format(v)\<close> for one value.\<close>

fun py_format :: "env \<Rightarrow> json \<Rightarrow> string" where
  "py_format E JNull = ''None''"
| "py_format E (JBool b) = (if b then ''True'' else ''False'')"
| "py_format E (JNum n) = str_int n"
| "py_format E (JStr s) = s"
| "py_format E v = container_repr E v"

subsection \<open>Building the request URL\<close>

text \<open>
  \<open>str.replace(old, new)\<close>: the occurrences of \<open>old\<close> are replaced from left to right
  without overlap; \<open>k\<close> counts the characters of a matched occurrence still to be skipped.
  An empty \<open>old\<close> matches before every character and at the end.
\<close>

fun replace_from :: "string \<Rightarrow> string \<Rightarrow> nat \<Rightarrow> string \<Rightarrow> string" where
  "replace_from old new k [] = []"
| "replace_from old new k (c # cs) =
    (if 0 < k then replace_from old new (k - 1) cs
     else if take (length old) (c # cs) = old
       then new @ replace_from old new (length old - 1) cs
       else c # replace_from old new 0 cs)"

definition py_replace :: "string \<Rightarrow> string \<Rightarrow> string \<Rightarrow> string" where
  "py_replace old new s =
    (if old = [] then new @ concat (map (\<lambda>c. c # new) s) else replace_from old new 0 s)"

text \<open>\<open>bytes.rstrip(chars)\<close> and \<open>sep.join(parts)\<close>.\<close>

definition py_rstrip :: "string \<Rightarrow> string \<Rightarrow> string" where
  "py_rstrip chars s = rev (dropWhile (\<lambda>c. c \<in> set chars) (rev s))"

fun py_join :: "string \<Rightarrow> string list \<Rightarrow> string" where
  "py_join sep [] = []"
| "py_join sep [x] = x"
| "py_join sep (x # y # ys) = x @ sep @ py_join sep (y # ys)"

text \<open>
  \<open>urllib.parse.quote\<close>. The bytes that are never quoted are the standard library's
  \<open>_ALWAYS_SAFE\<close>; \<open>quoter\<close> is \<open>_Quoter.__missing__\<close>, which keeps a safe byte and writes
  any other one as \<open>'%{:02X}'.format(b)\<close>.
\<close>

definition ALWAYS_SAFE :: string where
  "ALWAYS_SAFE = ''ABCDEFGHIJKLMNOPQRSTUVWXYZabcdefghijklmnopqrstuvwxyz0123456789_.-~''"

definition hex_digit :: "nat \<Rightarrow> char" where
  "hex_digit n = ''0123456789ABCDEF'' ! n"

definition percent_hex :: "char \<Rightarrow> string" where
  "percent_hex b =
    [CHR ''%'', hex_digit ((of_char b :: nat) div 16), hex_digit ((of_char b :: nat) mod 16)]"

definition quoter :: "string \<Rightarrow> char \<Rightarrow> string" where
  "quoter safe b = (if b \<in> set (ALWAYS_SAFE @ safe) then [b] else percent_hex b)"

definition quote :: "string \<Rightarrow> string \<Rightarrow> string" where
  "quote bs safe =
    (if bs = [] then bs
     else if py_rstrip (ALWAYS_SAFE @ safe) bs = [] then bs
     else concat (map (quoter safe) bs))"

definition quote_plus :: "string \<Rightarrow> string \<Rightarrow> string" where
  "quote_plus s safe =
    (if CHR '' '' \<notin> set s then quote s safe
     else py_replace '' '' ''+'' (quote s (safe @ '' '')))"

definition urlencode :: "(string \<times> string) list \<Rightarrow> string" where
  "urlencode q = py_join ''&'' (map (\<lambda>(k, v). quote_plus k [] @ ''='' @ quote_plus v []) q)"

text \<open>
  Modelled from the spec: \<open>util.copy_url\<close>, which is not among the sources. The spec's URL
  utility gives \<open>copy(URL)\<close>, an independent URL value whose path and query can be set,
  and \<open>URL.toString()\<close>.
\<close>

definition copy_url :: "url \<Rightarrow> url" where
  "copy_url u = u"

definition geturl :: "url \<Rightarrow> string" where
  "geturl u =
    scheme u @ ''://'' @ netloc u @ ''/'' @ path u
      @ (if query u = [] then [] else ''?'' @ query u)
      @ (if fragment u = [] then [] else ''#'' @ fragment u)"

subsection \<open>The UserRealm object\<close>

record user_realm =
  call_context :: "(string \<times> string) list"
  log_context :: string
  api_version :: string
  federation_protocol :: json
  account_type :: json
  federation_metadata_url :: json
  federation_active_auth_url :: json
  user_principle :: string
  authority :: url

text \<open>\<open>__init__\<close>; the logger is built from \<open>call_context['log_context']\<close>.\<close>

definition UserRealm_init ::
  "(string \<times> string) list \<Rightarrow> string \<Rightarrow> url \<Rightarrow> pyexn + user_realm" where
  "UserRealm_init ctx user auth =
    (case map_of ctx ''log_context'' of
       None \<Rightarrow> Inl (KeyError ''log_context'')
     | Some lc \<Rightarrow>
         Inr \<lparr>call_context = ctx, log_context = lc, api_version = ''1.0'',
              federation_protocol = JNull, account_type = JNull,
              federation_metadata_url = JNull, federation_active_auth_url = JNull,
              user_principle = user, authority = auth\<rparr>)"

text \<open>The safe characters passed to \<open>quote\<close> on line 79: tilde, parentheses, star, bang, dot, apostrophe.\<close>

definition USER_SAFE :: string where
  "USER_SAFE = ''~()*!.'' @ [CHR 0x27]"

definition get_user_realm_url :: "user_realm \<Rightarrow> url" where
  "get_user_realm_url self =
    (let user_realm_url = copy_url (authority self);
         url_encoded_user = quote (user_principle self) USER_SAFE;
         user_realm_url = user_realm_url
           \<lparr>path := py_replace ''<user>'' url_encoded_user USER_REALM_PATH_TEMPLATE\<rparr>;
         user_realm_query = [(''api-version'', api_version self)];
         user_realm_url = user_realm_url\<lparr>query := urlencode user_realm_query\<rparr>
     in copy_url user_realm_url)"

subsection \<open>Logger, callback and the threaded state\<close>

datatype log_entry =
    LogDebug string
  | LogError string pyexn

text \<open>
  One invocation of the caller's callback: \<open>callback(err)\<close> as
  \<open>_parse_discovery_response\<close> calls it, \<open>callback(err, response)\<close> as \<open>discover\<close> does.
\<close>

datatype cb_call =
    Call1 "pyexn option"
  | Call2 "pyexn option" json

fun cb_err :: "cb_call \<Rightarrow> pyexn option" where
  "cb_err (Call1 e) = e"
| "cb_err (Call2 e r) = e"

text \<open>
  The callback is the caller's code: given the invocations made so far and the present
  one, it returns (\<open>None\<close>) or raises (\<open>Some\<close>).
\<close>

type_synonym callback = "cb_call list \<Rightarrow> cb_call \<Rightarrow> pyexn option"

record world =
  realm :: user_realm
  log_entries :: "log_entry list"
  calls :: "cb_call list"

definition debug :: "string \<Rightarrow> world \<Rightarrow> world" where
  "debug msg w = w\<lparr>log_entries := log_entries w @ [LogDebug msg]\<rparr>"

definition log_error :: "string \<Rightarrow> pyexn \<Rightarrow> world \<Rightarrow> world" where
  "log_error msg exp w = w\<lparr>log_entries := log_entries w @ [LogError msg exp]\<rparr>"

text \<open>
  Modelled from the spec: \<open>Logger.create_error\<close> of the missing \<open>log\<close> module, which turns a
  message into an opaque error object.
\<close>

definition create_error :: "string \<Rightarrow> pyexn" where
  "create_error msg = AdalError msg"

definition invoke :: "callback \<Rightarrow> cb_call \<Rightarrow> world \<Rightarrow> (pyexn + unit) \<times> world" where
  "invoke callback c w =
    (case callback (calls w) c of None \<Rightarrow> Inr () | Some e \<Rightarrow> Inl e,
     w\<lparr>calls := calls w @ [c]\<rparr>)"

subsection \<open>Validation against a vocabulary\<close>

text \<open>\<open>d.values()\<close> and \<open>d[key]\<close> for what a name may hold.\<close>

fun dict_values :: "pyval \<Rightarrow> pyexn + json list" where
  "dict_values (Dict d) = Inr (map (\<lambda>kv. JStr (snd kv)) d)"
| "dict_values (Val (JObj kvs)) = Inr (map snd kvs)"
| "dict_values v = Inl (AttributeError ''values'')"

definition dict_get :: "(string \<times> string) list \<Rightarrow> string \<Rightarrow> pyexn + string" where
  "dict_get d key = (case map_of d key of None \<Rightarrow> Inl (KeyError key) | Some v \<Rightarrow> Inr v)"

text \<open>
  Lines 88 to 96. The parameter is spelled \<open>constants\<close>, the last line reads \<open>constnats\<close>:
  that name is looked up in the frame of the call and then in the module.
\<close>

definition validate_constant_value :: "env \<Rightarrow> pyval \<Rightarrow> json \<Rightarrow> bool \<Rightarrow> pyexn + json" where
  "validate_constant_value E constants value case_sensitive =
    (if \<not> truthy value then Inr (JBool False)
     else case (if \<not> case_sensitive then py_lower E value else Inr value) of
         Inl e \<Rightarrow> Inl e
       | Inr value' \<Rightarrow>
           (case resolve E [(''self'', Instance ''UserRealm''), (''constants'', constants),
                            (''value'', Val value'),
                            (''case_sensitive'', Val (JBool case_sensitive))] ''constnats'' of
              Inl e \<Rightarrow> Inl e
            | Inr d \<Rightarrow>
                (case dict_values d of
                   Inl e \<Rightarrow> Inl e
                 | Inr vs \<Rightarrow> Inr (if value' \<in> set vs then value' else JBool False))))"

text \<open>
  A call of the method with its positional arguments (after \<open>self\<close>). The three parameters
  have no defaults, so any other number of arguments raises \<open>TypeError\<close> before the body
  runs.
\<close>

fun call_validate_constant_value :: "env \<Rightarrow> pyval list \<Rightarrow> pyexn + json" where
  "call_validate_constant_value E [constants, Val value, Val case_sensitive] =
    validate_constant_value E constants value (truthy case_sensitive)"
| "call_validate_constant_value E args = Inl (TypeError ''_validate_constant_value'')"

text \<open>Lines 98 to 102: both wrappers pass the vocabulary and the value only.\<close>

definition validate_account_type :: "env \<Rightarrow> json \<Rightarrow> pyexn + json" where
  "validate_account_type E type = call_validate_constant_value E [Dict (AccountType E), Val type]"

definition validate_federation_protocol :: "env \<Rightarrow> json \<Rightarrow> pyexn + json" where
  "validate_federation_protocol E protocol =
    call_validate_constant_value E [Dict (FederationProtocolType E), Val protocol]"

subsection \<open>Mapping the response\<close>

text \<open>Lines 104 to 110.\<close>

definition log_parsed_response :: "env \<Rightarrow> world \<Rightarrow> world" where
  "log_parsed_response E w =
    (debug ('' FederationActiveAuthUrl: '' @ py_format E (federation_active_auth_url (realm w)))
    (debug ('' FederationMetatdataUrl:  '' @ py_format E (federation_metadata_url (realm w)))
    (debug ('' FederationProtocol:      '' @ py_format E (federation_protocol (realm w)))
    (debug ('' AccountType:             '' @ py_format E (account_type (realm w)))
    (debug ''UserRealm response:'' w)))))"

text \<open>\<open>json.loads(body)\<close>, given what the name \<open>json\<close> evaluated to.\<close>

fun loads :: "env \<Rightarrow> pyval \<Rightarrow> string \<Rightarrow> pyexn + json" where
  "loads E (Module m) body =
    (if m = ''json'' then json_loads E body else Inl (AttributeError ''loads''))"
| "loads E v body = Inl (AttributeError ''loads'')"

text \<open>
  Lines 123 to 141, the part of \<open>_parse_discovery_response\<close> after the \<open>try\<close> statement. An
  exception raised here is not caught in this function.
\<close>

definition parse_discovery_fields ::
  "env \<Rightarrow> callback \<Rightarrow> json \<Rightarrow> world \<Rightarrow> (pyexn + unit) \<times> world" where
  "parse_discovery_fields E callback response w1 =
    (case (case subscript response ''account_type'' of
             Inl e \<Rightarrow> Inl e
           | Inr t \<Rightarrow> validate_account_type E t) of
       Inl e \<Rightarrow> (Inl e, w1)
     | Inr validated \<Rightarrow>
         if \<not> truthy validated then
           invoke callback
             (Call1 (Some (create_error (''Cannot parse account_type: '' @ py_format E validated)))) w1
         else
           let w2 = w1\<lparr>realm := (realm w1)\<lparr>account_type := validated\<rparr>\<rparr> in
           (case dict_get (AccountType E) ''Federated'' of
              Inl e \<Rightarrow> (Inl e, w2)
            | Inr federated \<Rightarrow>
                if account_type (realm w2) = JStr federated then
                  (case (case subscript response ''federation_protocol'' of
                           Inl e \<Rightarrow> Inl e
                         | Inr p \<Rightarrow> validate_federation_protocol E p) of
                     Inl e \<Rightarrow> (Inl e, w2)
                   | Inr protocol \<Rightarrow>
                       if \<not> truthy protocol then
                         invoke callback
                           (Call1 (Some (create_error
                              (''Cannot parse federation protocol: '' @ py_format E protocol)))) w2
                       else
                         let w3 = w2\<lparr>realm := (realm w2)\<lparr>federation_protocol := protocol\<rparr>\<rparr> in
                         (case subscript response ''federation_metadata_url'' of
                            Inl e \<Rightarrow> (Inl e, w3)
                          | Inr m \<Rightarrow>
                              let w4 = w3\<lparr>realm := (realm w3)\<lparr>federation_metadata_url := m\<rparr>\<rparr> in
                              (case subscript response ''federation_active_auth_url'' of
                                 Inl e \<Rightarrow> (Inl e, w4)
                               | Inr a \<Rightarrow>
                                   invoke callback (Call1 None)
                                     (log_parsed_response E
                                        (w4\<lparr>realm := (realm w4)\<lparr>federation_active_auth_url := a\<rparr>\<rparr>)))))
                else invoke callback (Call1 None) (log_parsed_response E w2)))"

text \<open>
  Lines 112 to 121 and the hand-over to the rest. \<open>except Exception\<close> catches whatever the
  evaluation of \<open>json.loads(body)\<close> raises, the failed lookup of the name \<open>json\<close> included.
\<close>

definition parse_discovery_response ::
  "env \<Rightarrow> callback \<Rightarrow> string \<Rightarrow> world \<Rightarrow> (pyexn + unit) \<times> world" where
  "parse_discovery_response E callback body w0 =
    (let w1 = debug (''Discovery response:'' @ [CHR 0x0A] @ body) w0 in
     case (case resolve E [(''self'', Instance ''UserRealm''), (''body'', Str body),
                           (''callback'', Callable ''callback''),
                           (''response'', Val JNull)] ''json'' of
             Inl exp \<Rightarrow> Inl exp
           | Inr m \<Rightarrow> loads E m body) of
       Inl exp \<Rightarrow>
         invoke callback
           (Call1 (Some (create_error
              (''Parsing realm discovery response JSON failed: '' @ body)))) w1
     | Inr response \<Rightarrow> parse_discovery_fields E callback response w1)"

subsection \<open>The request\<close>

text \<open>
  Modelled from the spec: \<open>util.is_http_success\<close>, \<open>util.create_request_options\<close> and
  \<open>util.log_return_correlation_id\<close> of the missing \<open>util\<close> module. A status code is a success
  inside the 2xx range; the request carries the headers it is given; a correlation
  identifier of the response, if present, is logged with the operation name.
\<close>

definition is_http_success :: "int \<Rightarrow> bool" where
  "is_http_success status = (200 \<le> status \<and> status < 300)"

definition create_request_options ::
  "user_realm \<Rightarrow> (string \<times> (string \<times> string) list) list
    \<Rightarrow> (string \<times> (string \<times> string) list) list" where
  "create_request_options self options = options"

definition log_return_correlation_id :: "string \<Rightarrow> response \<Rightarrow> world \<Rightarrow> world" where
  "log_return_correlation_id operation resp w =
    (case correlation_id resp of
       None \<Rightarrow> w
     | Some cid \<Rightarrow> debug (operation @ '' correlation id: '' @ cid) w)"

text \<open>
  Lines 151 to 168: the body of the \<open>try\<close> statement of \<open>discover\<close>. Reading \<open>resp.body\<close>
  can raise, on line 157 before the error string is extended and on line 168 before
  \<open>_parse_discovery_response\<close> is entered; line 158 reads the attribute a second time.
\<close>

definition discover_try ::
  "env \<Rightarrow> callback \<Rightarrow> string \<Rightarrow> url \<Rightarrow> (string \<times> (string \<times> string) list) list
    \<Rightarrow> world \<Rightarrow> (pyexn + unit) \<times> world" where
  "discover_try E callback operation user_realm_url options w1 =
    (case (case map_of options ''headers'' of
             None \<Rightarrow> Inl (KeyError ''headers'')
           | Some headers \<Rightarrow> requests_get E user_realm_url headers) of
       Inl e \<Rightarrow> (Inl e, w1)
     | Inr resp \<Rightarrow>
         let w2 = log_return_correlation_id operation resp w1 in
         if \<not> is_http_success (status_code resp) then
           let return_error_string =
                 operation @ '' request returned http error: '' @ str_int (status_code resp);
               error_response = JStr []
           in (case resp_body resp of
                 Inl e \<Rightarrow> (Inl e, w2)
               | Inr b \<Rightarrow>
                   if b \<noteq> [] then
                     (case resp_body resp of
                        Inl e \<Rightarrow> (Inl e, w2)
                      | Inr b' \<Rightarrow>
                          invoke callback
                            (Call2 (Some (create_error
                                      (return_error_string @ '' and server response: '' @ b')))
                               (case resp_json resp of Inl e \<Rightarrow> error_response | Inr j \<Rightarrow> j))
                            w2)
                   else
                     invoke callback
                       (Call2 (Some (create_error return_error_string)) error_response) w2)
         else
           (case resp_body resp of
              Inl e \<Rightarrow> (Inl e, w2)
            | Inr b \<Rightarrow> parse_discovery_response E callback b w2))"

text \<open>
  Lines 143 to 173. The handler of \<open>except Exception\<close> logs the exception and calls the
  callback with it; what the callback raises there leaves \<open>discover\<close>.
\<close>

definition discover :: "env \<Rightarrow> callback \<Rightarrow> world \<Rightarrow> (pyexn + unit) \<times> world" where
  "discover E callback w0 =
    (let options = create_request_options (realm w0)
                     [(''headers'', [(''Accept'', ''application/json'')])];
         user_realm_url = get_user_realm_url (realm w0);
         w1 = debug (''Performing user realm discovery at: '' @ geturl user_realm_url) w0;
         operation = ''User Realm Discovery''
     in case discover_try E callback operation user_realm_url options w1 of
          (Inr u, w2) \<Rightarrow> (Inr u, w2)
        | (Inl exp, w2) \<Rightarrow>
            invoke callback (Call2 (Some exp) JNull)
              (log_error (operation @ '' request failed'') exp w2))"

text \<open>A freshly constructed object with an empty log and no callback invocation yet.\<close>

definition fresh :: "user_realm \<Rightarrow> world" where
  "fresh r = \<lparr>realm = r, log_entries = [], calls = []\<rparr>"

subsection \<open>Auxiliary notions for the properties\<close>

text \<open>
  The test of line 129 on an object, and membership of its protocol in the values of the
  federation protocol vocabulary.
\<close>

definition is_federated :: "env \<Rightarrow> user_realm \<Rightarrow> bool" where
  "is_federated E r =
    (case dict_get (AccountType E) ''Federated'' of
       Inl e \<Rightarrow> False
     | Inr federated \<Rightarrow> account_type r = JStr federated)"

definition protocol_validates :: "env \<Rightarrow> user_realm \<Rightarrow> bool" where
  "protocol_validates E r =
    (federation_protocol r \<in> set (map (\<lambda>kv. JStr (snd kv)) (FederationProtocolType E)))"

text \<open>
  The encoding as the specification words it: the unreserved characters of RFC 3986
  (letters, digits, hyphen, dot, underscore, tilde) and the characters
  \<open>~ ( ) * ! . '\<close> are kept, every other byte becomes a percent sign and its two
  upper-case hexadecimal digits; \<open>hex_value\<close> reads such a digit back.
\<close>

definition unreserved :: "char \<Rightarrow> bool" where
  "unreserved c =
    ((65 \<le> (of_char c :: nat) \<and> (of_char c :: nat) \<le> 90)
     \<or> (97 \<le> (of_char c :: nat) \<and> (of_char c :: nat) \<le> 122)
     \<or> (48 \<le> (of_char c :: nat) \<and> (of_char c :: nat) \<le> 57)
     \<or> c = CHR ''-'' \<or> c = CHR ''.'' \<or> c = CHR ''_'' \<or> c = CHR ''~'')"

definition kept_unescaped :: "char \<Rightarrow> bool" where
  "kept_unescaped c =
    (unreserved c \<or> c = CHR ''~'' \<or> c = CHR ''('' \<or> c = CHR '')'' \<or> c = CHR ''*''
     \<or> c = CHR ''!'' \<or> c = CHR ''.'' \<or> c = CHR 0x27)"

definition upper_hex :: "nat \<Rightarrow> char" where
  "upper_hex d = (if d < 10 then char_of (48 + d) else char_of (55 + d))"

definition hex_value :: "char \<Rightarrow> nat" where
  "hex_value h = (if (of_char h :: nat) < 58 then of_char h - 48 else of_char h - 55)"

definition percent_escape :: "char \<Rightarrow> string" where
  "percent_escape c =
    [CHR ''%'', upper_hex ((of_char c :: nat) div 16), upper_hex ((of_char c :: nat) mod 16)]"

subsection \<open>Example inputs\<close>

text \<open>
  An authority, the object \<open>UserRealm(call_context, 'alice@example.com', authority)\<close>,
  four response bodies with the values a JSON parser gives for them, responses carrying
  them, an environment whose HTTP library answers with a given response, a callback that
  returns and one that raises the error it is handed.
\<close>

definition example_url :: url where
  "example_url = \<lparr>scheme = ''https'', netloc = ''login.example.com'', path = [], query = [],
                   fragment = []\<rparr>"

definition example_realm :: user_realm where
  "example_realm =
    \<lparr>call_context = [(''log_context'', ''ctx'')], log_context = ''ctx'', api_version = ''1.0'',
     federation_protocol = JNull, account_type = JNull, federation_metadata_url = JNull,
     federation_active_auth_url = JNull, user_principle = ''alice@example.com'',
     authority = example_url\<rparr>"

definition federated_body :: string where
  "federated_body = ''{\"account_type\":\"Federated\",\"federation_protocol\":\"WSFed\",\"federation_metadata_url\":\"https://idp/meta\",\"federation_active_auth_url\":\"https://idp/auth\"}''"

definition managed_body :: string where
  "managed_body = ''{\"account_type\":\"Managed\"}''"

definition unknown_body :: string where
  "unknown_body = ''{\"account_type\":\"bogus\"}''"

definition partial_body :: string where
  "partial_body = ''{\"account_type\":\"Federated\",\"federation_protocol\":\"WSFed\"}''"

definition example_loads :: "string \<Rightarrow> pyexn + json" where
  "example_loads b =
    (if b = federated_body then
       Inr (JObj [(''account_type'', JStr ''Federated''), (''federation_protocol'', JStr ''WSFed''),
                  (''federation_metadata_url'', JStr ''https://idp/meta''),
                  (''federation_active_auth_url'', JStr ''https://idp/auth'')])
     else if b = managed_body then Inr (JObj [(''account_type'', JStr ''Managed'')])
     else if b = unknown_body then Inr (JObj [(''account_type'', JStr ''bogus'')])
     else if b = partial_body then
       Inr (JObj [(''account_type'', JStr ''Federated''), (''federation_protocol'', JStr ''WSFed'')])
     else Inl (OtherError ''ValueError''))"

definition reply :: "int \<Rightarrow> string \<Rightarrow> response" where
  "reply status b =
    \<lparr>status_code = status, resp_text = b, resp_json = example_loads b, correlation_id = None\<rparr>"

definition serving :: "response \<Rightarrow> env" where
  "serving resp =
    \<lparr>AccountType = [(''Federated'', ''federated''), (''Managed'', ''managed''),
                    (''Unknown'', ''unknown'')],
     FederationProtocolType = [(''WSFed'', ''wsfed''), (''Unknown'', ''unknown'')],
     json_loads = example_loads,
     requests_get = (\<lambda>u h. Inr resp),
     str_lower = map lower_char,
     container_repr = (\<lambda>v. [])\<rparr>"

definition quiet :: callback where
  "quiet h c = None"

definition reraising :: callback where
  "reraising h c = cb_err c"

section \<open>Properties\<close>

subsection \<open>Name resolution\<close>

lemma resolve_json:
  "resolve E [(''self'', Instance ''UserRealm''), (''body'', Str body),
              (''callback'', Callable ''callback''), (''response'', Val JNull)] ''json''
   = Inl (NameError ''json'')"
  by (simp add: resolve_def module_globals_def)

lemma parse_discovery_response_unfold:
  "parse_discovery_response E callback body w =
     invoke callback (Call1 (Some (create_error (''Parsing realm discovery response JSON failed: '' @ body))))
       (debug (''Discovery response:'' @ [CHR 0x0A] @ body) w)"
  by (simp add: parse_discovery_response_def resolve_json)

lemma resolve_constnats:
  "resolve E [(''self'', Instance ''UserRealm''), (''constants'', constants), (''value'', Val v),
              (''case_sensitive'', Val (JBool cs))] ''constnats'' = Inl (NameError ''constnats'')"
  by (simp add: resolve_def module_globals_def)

lemma validate_constant_value_truthy_string:
  "s \<noteq> [] \<Longrightarrow> validate_constant_value E constants (JStr s) cs = Inl (NameError ''constnats'')"
  by (simp add: validate_constant_value_def resolve_constnats)

subsection \<open>The paths through discover\<close>

lemma resp_body_raises: "resp_body resp = Inl (AttributeError ''body'')"
  by (simp add: resp_body_def response_attributes_def)

lemma try_transport:
  "requests_get E u h = Inl e \<Longrightarrow>
   discover_try E callback operation u [(''headers'', h)] w = (Inl e, w)"
  by (simp add: discover_try_def)

lemma try_response:
  "requests_get E u h = Inr resp \<Longrightarrow>
   discover_try E callback operation u [(''headers'', h)] w =
     (Inl (AttributeError ''body''), log_return_correlation_id operation resp w)"
  by (cases "is_http_success (status_code resp)")
     (simp_all add: discover_try_def resp_body_raises)

lemma discover_unfold:
  "discover E callback w =
    (case discover_try E callback ''User Realm Discovery'' (get_user_realm_url (realm w))
            [(''headers'', [(''Accept'', ''application/json'')])]
            (debug (''Performing user realm discovery at: '' @ geturl (get_user_realm_url (realm w))) w) of
       (Inr u, w2) \<Rightarrow> (Inr u, w2)
     | (Inl exp, w2) \<Rightarrow>
         invoke callback (Call2 (Some exp) JNull)
           (log_error (''User Realm Discovery'' @ '' request failed'') exp w2))"
  by (simp add: discover_def create_request_options_def Let_def)

lemma invoke_calls: "calls (snd (invoke callback c w)) = calls w @ [c]"
  by (simp add: invoke_def)

lemma invoke_realm: "realm (snd (invoke callback c w)) = realm w"
  by (simp add: invoke_def)

lemma invoke_returns:
  "callback (calls w) c = None \<Longrightarrow> invoke callback c w = (Inr (), w\<lparr>calls := calls w @ [c]\<rparr>)"
  by (simp add: invoke_def)

lemma invoke_raises:
  "callback (calls w) c = Some e \<Longrightarrow> invoke callback c w = (Inl e, w\<lparr>calls := calls w @ [c]\<rparr>)"
  by (simp add: invoke_def)

lemma debug_calls: "calls (debug m w) = calls w"
  by (simp add: debug_def)

lemma debug_realm: "realm (debug m w) = realm w"
  by (simp add: debug_def)

lemma log_error_calls: "calls (log_error m e w) = calls w"
  by (simp add: log_error_def)

lemma log_error_realm: "realm (log_error m e w) = realm w"
  by (simp add: log_error_def)

lemma log_return_correlation_id_calls: "calls (log_return_correlation_id operation resp w) = calls w"
  by (cases "correlation_id resp") (simp_all add: log_return_correlation_id_def debug_calls)

lemma log_return_correlation_id_realm: "realm (log_return_correlation_id operation resp w) = realm w"
  by (cases "correlation_id resp") (simp_all add: log_return_correlation_id_def debug_realm)

lemmas untouched = debug_calls debug_realm log_error_calls log_error_realm
  log_return_correlation_id_calls log_return_correlation_id_realm

text \<open>The two ways through \<open>discover\<close>: both end in the handler of line 170.\<close>

lemma discover_transport:
  assumes "requests_get E (get_user_realm_url (realm w)) [(''Accept'', ''application/json'')] = Inl e"
  shows "discover E callback w =
    invoke callback (Call2 (Some e) JNull)
      (log_error (''User Realm Discovery'' @ '' request failed'') e
        (debug (''Performing user realm discovery at: '' @ geturl (get_user_realm_url (realm w))) w))"
  by (simp add: discover_unfold try_transport [OF assms])

lemma discover_response:
  assumes "requests_get E (get_user_realm_url (realm w)) [(''Accept'', ''application/json'')] = Inr resp"
  shows "discover E callback w =
    invoke callback (Call2 (Some (AttributeError ''body'')) JNull)
      (log_error (''User Realm Discovery'' @ '' request failed'') (AttributeError ''body'')
        (log_return_correlation_id ''User Realm Discovery'' resp
          (debug (''Performing user realm discovery at: '' @ geturl (get_user_realm_url (realm w))) w)))"
  by (simp add: discover_unfold try_response [OF assms])

lemma discover_realm: "realm (snd (discover E callback w)) = realm w"
  by (cases "requests_get E (get_user_realm_url (realm w)) [(''Accept'', ''application/json'')]")
     (simp_all add: discover_transport discover_response invoke_realm untouched)

lemma discover_calls:
  "calls (snd (discover E callback w)) =
     calls w @
     [Call2 (Some (case requests_get E (get_user_realm_url (realm w))
                          [(''Accept'', ''application/json'')] of
                     Inl e \<Rightarrow> e | Inr resp \<Rightarrow> AttributeError ''body'')) JNull]"
  by (cases "requests_get E (get_user_realm_url (realm w)) [(''Accept'', ''application/json'')]")
     (simp_all add: discover_transport discover_response invoke_calls untouched)

lemma discover_calls_errors:
  "\<exists>cs. calls (snd (discover E callback w)) = calls w @ cs \<and> cs \<noteq> [] \<and> list_all (\<lambda>c. cb_err c \<noteq> None) cs"
  by (simp add: discover_calls)

lemma example_get:
  "requests_get (serving resp) u h = Inr resp"
  by (simp add: serving_def)

lemma quiet_returns: "quiet h c = None"
  by (simp add: quiet_def)

lemma init_fields:
  "UserRealm_init ctx user auth = Inr self \<Longrightarrow>
   api_version self = ''1.0'' \<and> user_principle self = user \<and> authority self = auth
   \<and> account_type self = JNull \<and> federation_protocol self = JNull
   \<and> federation_metadata_url self = JNull \<and> federation_active_auth_url self = JNull"
  by (cases "map_of ctx ''log_context''") (auto simp add: UserRealm_init_def)

lemma example_init:
  "UserRealm_init [(''log_context'', ''ctx'')] ''alice@example.com'' example_url = Inr example_realm"
  by (simp add: UserRealm_init_def example_realm_def)

lemma not_federated_None: "account_type r = JNull \<Longrightarrow> \<not> is_federated E r"
  by (cases "dict_get (AccountType E) ''Federated''") (simp_all add: is_federated_def)

subsection \<open>Response mapping and notification\<close>

text \<open>
  Claim C1 says that a well-formed body with a Federated account type and a valid
  federation protocol makes \<open>_parse_discovery_response\<close> call the callback without an
  error and leaves all four fields set. The code does otherwise: for the body of the
  specification's own scenario, which a JSON parser reads as the object shown, the callback
  receives the error \<open>Parsing realm discovery response JSON failed\<close> and the four fields
  keep their initial \<open>None\<close>.
\<close>

theorem parse_discovery_response_federated_body: 
  "json_loads (serving (reply 200 federated_body)) federated_body =
     Inr (JObj [(''account_type'', JStr ''Federated''), (''federation_protocol'', JStr ''WSFed''),
                (''federation_metadata_url'', JStr ''https://idp/meta''),
                (''federation_active_auth_url'', JStr ''https://idp/auth'')])
   \<and> parse_discovery_response (serving (reply 200 federated_body)) quiet federated_body
         (fresh example_realm) =
       (Inr (),
        \<lparr>realm = example_realm,
         log_entries = [LogDebug (''Discovery response:'' @ [CHR 0x0A] @ federated_body)],
         calls = [Call1 (Some (AdalError
                    (''Parsing realm discovery response JSON failed: '' @ federated_body)))]\<rparr>)"
  by (simp add: parse_discovery_response_unfold invoke_def debug_def fresh_def quiet_def
      create_error_def serving_def example_loads_def)

text \<open>
  Claim C2 says that a well-formed body whose account type is Managed makes
  \<open>_parse_discovery_response\<close> call the callback without an error and sets the account
  type to the Managed value. The code does otherwise: for the body
  \<open>{"account_type":"Managed"}\<close> the callback receives the parse-failure error and the
  account type stays \<open>None\<close>.
\<close>

theorem parse_discovery_response_managed_body:
  "json_loads (serving (reply 200 managed_body)) managed_body =
     Inr (JObj [(''account_type'', JStr ''Managed'')])
   \<and> parse_discovery_response (serving (reply 200 managed_body)) quiet managed_body
         (fresh example_realm) =
       (Inr (),
        \<lparr>realm = example_realm,
         log_entries = [LogDebug (''Discovery response:'' @ [CHR 0x0A] @ managed_body)],
         calls = [Call1 (Some (AdalError
                    (''Parsing realm discovery response JSON failed: '' @ managed_body)))]\<rparr>)"
proof -
  have "example_loads managed_body = Inr (JObj [(''account_type'', JStr ''Managed'')])"
    by (simp add: example_loads_def managed_body_def federated_body_def)
  then show ?thesis
    by (simp add: parse_discovery_response_unfold invoke_def debug_def fresh_def quiet_def
        create_error_def serving_def)
qed

text \<open>
  Claim C3 says that a parsed body whose account type is not in the vocabulary is reported
  with the error \<open>Cannot parse account_type\<close>. The code does otherwise: for the body
  \<open>{"account_type":"bogus"}\<close>, which a JSON parser reads as the object shown,
  \<open>_parse_discovery_response\<close> hands the callback the error
  \<open>Parsing realm discovery response JSON failed\<close> and never reads the field.
\<close>

theorem parse_discovery_response_unrecognized_account_type:
  "json_loads (serving (reply 200 unknown_body)) unknown_body =
     Inr (JObj [(''account_type'', JStr ''bogus'')])
   \<and> parse_discovery_response (serving (reply 200 unknown_body)) quiet unknown_body
         (fresh example_realm) =
       (Inr (),
        \<lparr>realm = example_realm,
         log_entries = [LogDebug (''Discovery response:'' @ [CHR 0x0A] @ unknown_body)],
         calls = [Call1 (Some (AdalError
                    (''Parsing realm discovery response JSON failed: '' @ unknown_body)))]\<rparr>)"
proof -
  have "example_loads unknown_body = Inr (JObj [(''account_type'', JStr ''bogus'')])"
    by (simp add: example_loads_def managed_body_def federated_body_def unknown_body_def)
  then show ?thesis
    by (simp add: parse_discovery_response_unfold invoke_def debug_def fresh_def quiet_def
        create_error_def serving_def)
qed

text \<open>
  Claim C4 says that \<open>_validate_constant_value\<close> never raises and returns the lower-cased
  value for a member of the vocabulary. The code does otherwise: for the account type
  vocabulary, the value \<open>'Managed'\<close> and a case-insensitive match, the call raises
  \<open>NameError\<close> for the name \<open>constnats\<close>.
\<close>

theorem validate_constant_value_managed_raises:
  "validate_constant_value (serving (reply 200 managed_body))
     (Dict (AccountType (serving (reply 200 managed_body)))) (JStr ''Managed'') False
   = Inl (NameError ''constnats'')"
  by (simp add: validate_constant_value_truthy_string)

text \<open>
  Claim C6: after \<open>discover\<close> on a freshly constructed object, if the account type is not
  the Federated value then the three federation fields are \<open>None\<close>; and if it is the
  Federated value then the federation protocol is a value of the protocol vocabulary, or the
  callback was invoked and every invocation carried an error. (No path of \<open>discover\<close>
  assigns any of the four fields, see \<open>discover_realm\<close>, so the account type is never the
  Federated value.)
\<close>

theorem discover_federation_all_or_nothing:
  assumes "UserRealm_init ctx user auth = Inr self"
  shows "(\<not> is_federated E (realm (snd (discover E callback (fresh self)))) \<longrightarrow>
            federation_protocol (realm (snd (discover E callback (fresh self)))) = JNull
          \<and> federation_metadata_url (realm (snd (discover E callback (fresh self)))) = JNull
          \<and> federation_active_auth_url (realm (snd (discover E callback (fresh self)))) = JNull)
       \<and> (is_federated E (realm (snd (discover E callback (fresh self)))) \<longrightarrow>
            protocol_validates E (realm (snd (discover E callback (fresh self))))
          \<or> (calls (snd (discover E callback (fresh self))) \<noteq> []
              \<and> list_all (\<lambda>c. cb_err c \<noteq> None) (calls (snd (discover E callback (fresh self))))))"
proof -
  have r: "realm (snd (discover E callback (fresh self))) = self"
    by (simp add: discover_realm fresh_def)
  from init_fields [OF assms] have "\<not> is_federated E self"
    by (simp add: not_federated_None)
  with init_fields [OF assms] show ?thesis by (simp add: r)
qed

theorem discover_federation_all_or_nothing_witness:
  "UserRealm_init [(''log_context'', ''ctx'')] ''alice@example.com'' example_url = Inr example_realm
   \<and> \<not> is_federated (serving (reply 200 federated_body))
         (realm (snd (discover (serving (reply 200 federated_body)) quiet (fresh example_realm))))
   \<and> federation_protocol
         (realm (snd (discover (serving (reply 200 federated_body)) quiet (fresh example_realm)))) = JNull
   \<and> federation_metadata_url
         (realm (snd (discover (serving (reply 200 federated_body)) quiet (fresh example_realm)))) = JNull
   \<and> federation_active_auth_url
         (realm (snd (discover (serving (reply 200 federated_body)) quiet (fresh example_realm)))) = JNull"
proof -
  have n: "\<not> is_federated (serving (reply 200 federated_body))
         (realm (snd (discover (serving (reply 200 federated_body)) quiet (fresh example_realm))))"
    by (simp add: discover_realm fresh_def not_federated_None example_realm_def)
  from discover_federation_all_or_nothing [OF example_init, of "serving (reply 200 federated_body)" quiet] n example_init
  show ?thesis by simp
qed

text \<open>
  Claim C7 says that for a status code outside the 2xx range the callback receives an error
  carrying the status code and, when a body is present, the raw body. The code does
  otherwise: line 157 reads \<open>resp.body\<close>, which a \<open>requests.Response\<close> does not have, so
  \<open>AttributeError\<close> is raised before the callback of line 164 is reached; the handler of
  line 170 logs it as a request failure and hands it to the callback with \<open>None\<close>. For a 500
  response with the payload \<open>oops\<close> the error delivered carries neither the status code nor
  the payload.
\<close>

theorem discover_http_error_attribute_error:
  "\<not> is_http_success (status_code (reply 500 ''oops''))
   \<and> resp_text (reply 500 ''oops'') = ''oops''
   \<and> discover (serving (reply 500 ''oops'')) quiet (fresh example_realm) =
       (Inr (),
        \<lparr>realm = example_realm,
         log_entries =
           [LogDebug (''Performing user realm discovery at: ''
                        @ geturl (get_user_realm_url example_realm)),
            LogError ''User Realm Discovery request failed'' (AttributeError ''body'')],
         calls = [Call2 (Some (AttributeError ''body'')) JNull]\<rparr>)"
proof -
  have bad: "\<not> is_http_success (status_code (reply 500 ''oops''))"
    by (simp add: is_http_success_def reply_def)
  have t: "resp_text (reply 500 ''oops'') = ''oops''" "correlation_id (reply 500 ''oops'') = None"
    by (simp_all add: reply_def)
  have "discover (serving (reply 500 ''oops'')) quiet (fresh example_realm) =
       (Inr (),
        \<lparr>realm = example_realm,
         log_entries =
           [LogDebug (''Performing user realm discovery at: ''
                        @ geturl (get_user_realm_url example_realm)),
            LogError ''User Realm Discovery request failed'' (AttributeError ''body'')],
         calls = [Call2 (Some (AttributeError ''body'')) JNull]\<rparr>)"
    by (simp add: discover_response [OF example_get] invoke_returns quiet_returns
        log_return_correlation_id_def log_error_def debug_def t fresh_def)
  with bad t show ?thesis by simp
qed

text \<open>
  Claim C8: every execution of \<open>discover\<close> invokes the callback exactly once, and that
  invocation carries an error; this holds for every behaviour of the HTTP library and for
  every callback, one that raises included, because the only invocation that is reached is
  the one of line 172, in the handler and so outside the \<open>try\<close> statement.
\<close>

theorem discover_notifies_once:
  "\<exists>c. calls (snd (discover E callback w)) = calls w @ [c] \<and> cb_err c \<noteq> None"
  by (simp add: discover_calls)

theorem discover_notifies_once_witness:
  "length (calls (snd (discover (serving (reply 503 [])) reraising (fresh example_realm)))) = 1
   \<and> length (calls (snd (discover (serving (reply 200 managed_body)) quiet (fresh example_realm)))) = 1"
proof -
  from discover_notifies_once [of "serving (reply 503 [])" reraising "fresh example_realm"]
  have a: "length (calls (snd (discover (serving (reply 503 [])) reraising (fresh example_realm)))) = 1"
    by (auto simp add: fresh_def)
  from discover_notifies_once [of "serving (reply 200 managed_body)" quiet "fresh example_realm"]
  have "length (calls (snd (discover (serving (reply 200 managed_body)) quiet (fresh example_realm)))) = 1"
    by (auto simp add: fresh_def)
  with a show ?thesis by simp
qed

text \<open>
  Claim C9: for every body, \<open>_parse_discovery_response\<close> invokes the callback with the
  error \<open>Parsing realm discovery response JSON failed\<close> and changes no field (the lookup
  of the name \<open>json\<close> raises \<open>NameError\<close>, lemma \<open>resolve_json\<close>, which
  \<open>except Exception\<close> catches); and when the HTTP library answers with a 2xx status,
  every callback invocation \<open>discover\<close> makes carries an error.
\<close>

theorem parse_discovery_response_always_fails:
  "calls (snd (parse_discovery_response E callback body w)) =
     calls w @ [Call1 (Some (create_error
                  (''Parsing realm discovery response JSON failed: '' @ body)))]
   \<and> realm (snd (parse_discovery_response E callback body w)) = realm w
   \<and> (requests_get E (get_user_realm_url (realm w)) [(''Accept'', ''application/json'')] = Inr resp
        \<longrightarrow> is_http_success (status_code resp)
        \<longrightarrow> (\<exists>cs. calls (snd (discover E callback w)) = calls w @ cs \<and> cs \<noteq> []
                  \<and> list_all (\<lambda>c. cb_err c \<noteq> None) cs))"
proof -
  have a: "calls (snd (parse_discovery_response E callback body w)) =
     calls w @ [Call1 (Some (create_error
                  (''Parsing realm discovery response JSON failed: '' @ body)))]"
    by (simp add: parse_discovery_response_unfold invoke_calls untouched)
  have b: "realm (snd (parse_discovery_response E callback body w)) = realm w"
    by (simp add: parse_discovery_response_unfold invoke_realm untouched)
  show ?thesis
    using a b discover_calls_errors [of E callback w] by blast
qed

theorem parse_discovery_response_always_fails_witness:
  "requests_get (serving (reply 200 managed_body)) (get_user_realm_url (realm (fresh example_realm)))
      [(''Accept'', ''application/json'')] = Inr (reply 200 managed_body)
   \<and> is_http_success (status_code (reply 200 managed_body))
   \<and> calls (snd (parse_discovery_response (serving (reply 200 managed_body)) quiet managed_body
        (fresh example_realm))) =
       [Call1 (Some (AdalError (''Parsing realm discovery response JSON failed: '' @ managed_body)))]
   \<and> (\<exists>cs. calls (snd (discover (serving (reply 200 managed_body)) quiet (fresh example_realm))) = cs
         \<and> cs \<noteq> [] \<and> list_all (\<lambda>c. cb_err c \<noteq> None) cs)"
proof -
  have ok: "is_http_success (status_code (reply 200 managed_body))"
    by (simp add: is_http_success_def reply_def)
  from parse_discovery_response_always_fails [of "serving (reply 200 managed_body)" quiet managed_body "fresh example_realm"
      "reply 200 managed_body"] ok
  show ?thesis by (simp add: example_get create_error_def fresh_def)
qed

text \<open>
  Claim C10 says that a body with a Federated account type and a valid protocol but
  without the two URL keys makes \<open>_parse_discovery_response\<close> raise \<open>KeyError\<close> after
  the account type and the protocol were set, and that \<open>discover\<close> hands that exception to
  the callback with a second argument \<open>None\<close>. The code does otherwise: called with such a
  body, \<open>_parse_discovery_response\<close> raises nothing, hands the callback the parse-failure
  error and sets no field; and \<open>discover\<close>, for a 200 response with that payload, never
  enters it: line 168 raises \<open>AttributeError\<close> for \<open>resp.body\<close>, which is what the handler
  logs and hands to the callback, with all four fields still \<open>None\<close>.
\<close>

theorem discover_partial_federated_body:
  "json_loads (serving (reply 200 partial_body)) partial_body =
     Inr (JObj [(''account_type'', JStr ''Federated''), (''federation_protocol'', JStr ''WSFed'')])
   \<and> parse_discovery_response (serving (reply 200 partial_body)) quiet partial_body
         (fresh example_realm) =
       (Inr (),
        \<lparr>realm = example_realm,
         log_entries = [LogDebug (''Discovery response:'' @ [CHR 0x0A] @ partial_body)],
         calls = [Call1 (Some (AdalError
                    (''Parsing realm discovery response JSON failed: '' @ partial_body)))]\<rparr>)
   \<and> discover (serving (reply 200 partial_body)) quiet (fresh example_realm) =
       (Inr (),
        \<lparr>realm = example_realm,
         log_entries =
           [LogDebug (''Performing user realm discovery at: ''
                        @ geturl (get_user_realm_url example_realm)),
            LogError ''User Realm Discovery request failed'' (AttributeError ''body'')],
         calls = [Call2 (Some (AttributeError ''body'')) JNull]\<rparr>)"
proof -
  have l: "example_loads partial_body =
      Inr (JObj [(''account_type'', JStr ''Federated''), (''federation_protocol'', JStr ''WSFed'')])"
    by (simp add: example_loads_def managed_body_def federated_body_def unknown_body_def
        partial_body_def)
  have p: "parse_discovery_response (serving (reply 200 partial_body)) quiet partial_body
         (fresh example_realm) =
       (Inr (),
        \<lparr>realm = example_realm,
         log_entries = [LogDebug (''Discovery response:'' @ [CHR 0x0A] @ partial_body)],
         calls = [Call1 (Some (AdalError
                    (''Parsing realm discovery response JSON failed: '' @ partial_body)))]\<rparr>)"
    by (simp add: parse_discovery_response_unfold invoke_def debug_def fresh_def quiet_def
        create_error_def)
  have c: "correlation_id (reply 200 partial_body) = None"
    by (simp add: reply_def)
  have d: "discover (serving (reply 200 partial_body)) quiet (fresh example_realm) =
       (Inr (),
        \<lparr>realm = example_realm,
         log_entries =
           [LogDebug (''Performing user realm discovery at: ''
                        @ geturl (get_user_realm_url example_realm)),
            LogError ''User Realm Discovery request failed'' (AttributeError ''body'')],
         calls = [Call2 (Some (AttributeError ''body'')) JNull]\<rparr>)"
    by (simp add: discover_response [OF example_get] invoke_returns quiet_returns
        log_return_correlation_id_def log_error_def debug_def c fresh_def)
  show ?thesis using p d by (simp add: serving_def l)
qed

subsection \<open>The request URL\<close>

lemma in_range_iff:
  "(a \<le> (of_char c :: nat) \<and> (of_char c :: nat) \<le> b) \<longleftrightarrow> c \<in> char_of ` {a..b}" if "b < 256"
proof
  assume "a \<le> (of_char c :: nat) \<and> (of_char c :: nat) \<le> b"
  then have "of_char c \<in> {a..b}" by simp
  then have "char_of (of_char c :: nat) \<in> char_of ` {a..b}" by (rule imageI)
  then show "c \<in> char_of ` {a..b}" by simp
next
  assume "c \<in> char_of ` {a..b}"
  then obtain n where n: "n \<in> {a..b}" "c = char_of n" by auto
  with that have "n < 256" by simp
  then have "of_char c = n" using n by (simp add: of_char_of)
  then show "a \<le> (of_char c :: nat) \<and> (of_char c :: nat) \<le> b" using n by simp
qed



lemma in_range_list:
  "b < 256 \<Longrightarrow> (a \<le> (of_char c :: nat) \<and> (of_char c :: nat) \<le> b) \<longleftrightarrow> c \<in> set (map char_of [a..<Suc b])"
  using in_range_iff[of b a c] by (simp add: atLeastAtMost_upt)

lemma upper_iff: "(65 \<le> (of_char c :: nat) \<and> (of_char c :: nat) \<le> 90) \<longleftrightarrow> c \<in> set ''ABCDEFGHIJKLMNOPQRSTUVWXYZ''"
proof -
  have "map char_of [65..<Suc 90 :: nat] = ''ABCDEFGHIJKLMNOPQRSTUVWXYZ''" by code_simp
  then show ?thesis using in_range_list[of 90 65 c] by simp
qed

lemma lower_iff: "(97 \<le> (of_char c :: nat) \<and> (of_char c :: nat) \<le> 122) \<longleftrightarrow> c \<in> set ''abcdefghijklmnopqrstuvwxyz''"
proof -
  have "map char_of [97..<Suc 122 :: nat] = ''abcdefghijklmnopqrstuvwxyz''" by code_simp
  then show ?thesis using in_range_list[of 122 97 c] by simp
qed

lemma digit_iff: "(48 \<le> (of_char c :: nat) \<and> (of_char c :: nat) \<le> 57) \<longleftrightarrow> c \<in> set ''0123456789''"
proof -
  have "map char_of [48..<Suc 57 :: nat] = ''0123456789''" by code_simp
  then show ?thesis using in_range_list[of 57 48 c] by simp
qed


lemma ALWAYS_SAFE_parts:
  "ALWAYS_SAFE = ''ABCDEFGHIJKLMNOPQRSTUVWXYZ'' @ ''abcdefghijklmnopqrstuvwxyz'' @ ''0123456789'' @ ''_.-~''"
  by (simp add: ALWAYS_SAFE_def)

lemma safe_iff: "c \<in> set (ALWAYS_SAFE @ USER_SAFE) \<longleftrightarrow> kept_unescaped c"
proof -
  have "c \<in> set (ALWAYS_SAFE @ USER_SAFE) \<longleftrightarrow>
        c \<in> set ''ABCDEFGHIJKLMNOPQRSTUVWXYZ'' \<or> c \<in> set ''abcdefghijklmnopqrstuvwxyz''
        \<or> c \<in> set ''0123456789'' \<or> c \<in> set ''_.-~'' \<or> c \<in> set USER_SAFE"
    by (simp only: ALWAYS_SAFE_parts set_append Un_iff disj_assoc)
  also have "\<dots> \<longleftrightarrow> kept_unescaped c"
    unfolding kept_unescaped_def unreserved_def upper_iff lower_iff digit_iff
    by (auto simp add: USER_SAFE_def)
  finally show ?thesis .
qed


lemma nth_upt_16: "n < 16 \<Longrightarrow> [0..<16] ! n = n"
  by (metis add.left_neutral nth_upt)

lemma nth_map_upt_16: "n < 16 \<Longrightarrow> map f [0..<16] ! n = f n"
  by (metis nth_map length_upt diff_zero nth_upt_16)

lemma hex_digit_upper: "n < 16 \<Longrightarrow> hex_digit n = upper_hex n"
proof -
  assume n: "n < 16"
  have "''0123456789ABCDEF'' = map upper_hex [0..<16]" by code_simp
  then have "hex_digit n = map upper_hex [0..<16] ! n" by (simp only: hex_digit_def)
  also have "\<dots> = upper_hex n" using n by (rule nth_map_upt_16)
  finally show ?thesis .
qed

lemma hex_value_upper: "n < 16 \<Longrightarrow> hex_value (upper_hex n) = n"
  unfolding hex_value_def upper_hex_def by (auto simp add: of_char_of)

lemma percent_hex_decodes:
  "percent_hex b = [CHR ''%'', upper_hex ((of_char b :: nat) div 16), upper_hex ((of_char b :: nat) mod 16)]"
proof -
  have "(of_char b :: nat) < 256" by simp
  then have "(of_char b :: nat) div 16 < 16" by arith
  then show ?thesis by (simp add: percent_hex_def hex_digit_upper)
qed


lemma quote_map: "quote bs safe = concat (map (quoter safe) bs)"
proof -
  have "concat (map (quoter safe) bs) = bs" if "py_rstrip (ALWAYS_SAFE @ safe) bs = []"
  proof -
    from that have "dropWhile (\<lambda>c. c \<in> set (ALWAYS_SAFE @ safe)) (rev bs) = []"
      by (simp add: py_rstrip_def)
    then have "\<forall>c \<in> set bs. c \<in> set (ALWAYS_SAFE @ safe)"
      by (simp add: dropWhile_eq_Nil_conv)
    then show ?thesis
      by (induction bs) (simp_all add: quoter_def)
  qed
  then show ?thesis by (auto simp add: quote_def)
qed

lemma quoter_user: "quoter USER_SAFE = (\<lambda>c. if kept_unescaped c then [c] else percent_escape c)"
proof
  fix c
  show "quoter USER_SAFE c = (if kept_unescaped c then [c] else percent_escape c)"
    unfolding quoter_def by (simp only: safe_iff percent_hex_decodes percent_escape_def)
qed

lemma template_replace:
  "py_replace ''<user>'' enc USER_REALM_PATH_TEMPLATE = ''common/UserRealm/'' @ enc"
  by (simp add: py_replace_def USER_REALM_PATH_TEMPLATE_def)

lemma urlencode_api_version: "urlencode [(''api-version'', ''1.0'')] = ''api-version=1.0''"
  by (simp add: urlencode_def quote_plus_def quote_def py_rstrip_def ALWAYS_SAFE_def)

lemma percent_escape_decodes:
  "percent_escape c = [CHR ''%'', h, l] \<Longrightarrow> 16 * hex_value h + hex_value l = of_char c"
proof -
  assume "percent_escape c = [CHR ''%'', h, l]"
  then have h: "h = upper_hex ((of_char c :: nat) div 16)" and l: "l = upper_hex ((of_char c :: nat) mod 16)"
    by (simp_all add: percent_escape_def)
  have "(of_char c :: nat) < 256" by simp
  then have "(of_char c :: nat) div 16 < 16" by arith
  then show ?thesis by (simp add: h l hex_value_upper)
qed

text \<open>
  Claim C5: for every authority and user identifier of a constructed object, the URL built
  by \<open>_get_user_realm_url\<close> has the path \<open>common/UserRealm/\<close> followed by the
  identifier in which exactly the unreserved characters and \<open>~ ( ) * ! . '\<close> are kept and
  every other byte is written as a percent sign and two upper-case hexadecimal digits
  (which read back as the byte, lemma \<open>percent_escape_decodes\<close>), and the query
  \<open>api-version=1.0\<close>.
\<close>

theorem get_user_realm_url_encoding:
  assumes "UserRealm_init ctx user auth = Inr self"
  shows "path (get_user_realm_url self) =
           ''common/UserRealm/''
             @ concat (map (\<lambda>c. if kept_unescaped c then [c] else percent_escape c) user)
         \<and> query (get_user_realm_url self) = ''api-version=1.0''"
proof -
  from init_fields [OF assms]
  have f: "api_version self = ''1.0''" "user_principle self = user" by simp_all
  have "path (get_user_realm_url self) =
          py_replace ''<user>'' (quote user USER_SAFE) USER_REALM_PATH_TEMPLATE"
    by (simp add: get_user_realm_url_def copy_url_def Let_def f)
  moreover have "quote user USER_SAFE
      = concat (map (\<lambda>c. if kept_unescaped c then [c] else percent_escape c) user)"
    by (simp add: quote_map quoter_user)
  moreover have "query (get_user_realm_url self) = urlencode [(''api-version'', ''1.0'')]"
    by (simp add: get_user_realm_url_def copy_url_def Let_def f)
  ultimately show ?thesis
    by (simp only: template_replace urlencode_api_version)
qed

theorem get_user_realm_url_encoding_witness:
  "UserRealm_init [(''log_context'', ''ctx'')] ''alice@example.com'' example_url = Inr example_realm
   \<and> path (get_user_realm_url example_realm) = ''common/UserRealm/alice%40example.com''
   \<and> query (get_user_realm_url example_realm) = ''api-version=1.0''"
proof -
  have init: "UserRealm_init [(''log_context'', ''ctx'')] ''alice@example.com'' example_url
                = Inr example_realm"
    by (simp add: UserRealm_init_def example_realm_def)
  have enc: "concat (map (\<lambda>c. if kept_unescaped c then [c] else percent_escape c)
                ''alice@example.com'') = ''alice%40example.com''"
    by code_simp
  from get_user_realm_url_encoding [OF init]
  have "path (get_user_realm_url example_realm) = ''common/UserRealm/'' @ ''alice%40example.com''
        \<and> query (get_user_realm_url example_realm) = ''api-version=1.0''"
    by (simp only: enc)
  then show ?thesis using init by simp
qed

end
